theory Spec2Isabelle
  imports Complex_Main "HOL-Library.Sublist"
begin

section \<open>Data model\<close>

text \<open>
  A browser \<open>File\<close> as the pipeline reads it: its name, its MIME type and its byte size.
  Byte sizes, pixel counts, pixel bounds and progress percentages are natural numbers:
  the values a file size and a bitmap dimension take. An option key that is read by
  destructuring alone is an \<open>option\<close>: \<open>None\<close> is the key left out or undefined.
\<close>

record jsfile =
  fname :: string
  ftype :: string
  fsize :: nat

text \<open>A value thrown or a rejection reason: an \<open>Error\<close> with its message, or anything else.\<close>

datatype thrown = Error string | NonError

subsection \<open>Number rendering\<close>

text \<open>Template-literal rendering of a non-negative whole number: its decimal digits.\<close>

definition digit :: "nat \<Rightarrow> char" where
  "digit d = ''0123456789'' ! d"

function show_nat :: "nat \<Rightarrow> string" where
  "show_nat n = (if n < 10 then [digit n] else show_nat (n div 10) @ [digit (n mod 10)])"
  by pat_completeness auto
termination
  by (relation "measure (\<lambda>n. n)") auto

declare show_nat.simps [simp del]

subsection \<open>Option keys and numeric limits\<close>

text \<open>
  A key of an options object that is merged over defaults by object spread: the spread
  copies every key that is present, also one whose value is \<open>undefined\<close>, so the three
  cases differ.
\<close>

datatype 'a optkey = Absent | PresentUndefined | Present 'a

text \<open>
  A JavaScript number given as a limit: a whole number (of magnitude below \<open>10^21\<close>,
  which the runtime prints as its decimal digits), any other finite value together with
  the text the runtime prints for it, an infinity, or \<open>NaN\<close>.
\<close>

datatype jsnumber = Whole int | Other rat string | PosInfinity | NegInfinity | NaN

text \<open>A number used as a condition: zero and \<open>NaN\<close> are falsy.\<close>

fun truthy_number :: "jsnumber \<Rightarrow> bool" where
  "truthy_number (Whole n) = (n \<noteq> 0)"
| "truthy_number (Other q t) = (q \<noteq> 0)"
| "truthy_number PosInfinity = True"
| "truthy_number NegInfinity = True"
| "truthy_number NaN = False"

text \<open>
  \<open>size > limit * 1024 * 1024\<close> for a byte size and a limit in megabytes. Multiplying by
  a power of two is exact, so the comparison is the one of the exact values; every
  comparison with \<open>NaN\<close> is false.
\<close>

fun exceeds_MB :: "nat \<Rightarrow> jsnumber \<Rightarrow> bool" where
  "exceeds_MB bytes (Whole n) = (int bytes > n * 1024 * 1024)"
| "exceeds_MB bytes (Other q t) = (of_nat bytes > q * 1024 * 1024)"
| "exceeds_MB bytes PosInfinity = False"
| "exceeds_MB bytes NegInfinity = True"
| "exceeds_MB bytes NaN = False"

text \<open>A number inside a template literal.\<close>

fun numberToString :: "jsnumber \<Rightarrow> string" where
  "numberToString (Whole n) = (if n < 0 then ''-'' @ show_nat (nat (- n)) else show_nat (nat n))"
| "numberToString (Other q t) = t"
| "numberToString PosInfinity = ''Infinity''"
| "numberToString NegInfinity = ''-Infinity''"
| "numberToString NaN = ''NaN''"

section \<open>helpers/compress.ts\<close>

record CompressOptions =
  maxWidthOrHeight :: "nat option"
  maxSizeMB :: "nat option"
  fileType :: "string option"

text \<open>
  \<open>compressionRatio\<close> is the literal \<open>1\<close> on the skip path and the floating-point
  quotient \<open>compressedSize / originalSize\<close> otherwise; the quotient is kept as its two
  operands.
\<close>

datatype ratio = One | Quotient nat nat

record CompressResult =
  res_file :: jsfile
  res_originalSize :: nat
  res_compressedSize :: nat
  res_compressionRatio :: ratio
  res_wasSkipped :: bool

text \<open>
  \<open>compressImage\<close>, lines 29-70. The awaited outcome of the external encoder
  (\<open>imageCompression(file, ...)\<close>) is the parameter \<open>encoded\<close>: the encoded file, or
  what the encoder threw. A thrown value is wrapped into a new \<open>Error\<close>.
\<close>

definition isFormatForced :: "jsfile \<Rightarrow> CompressOptions \<Rightarrow> bool" where
  "isFormatForced file options =
     (case fileType options of None \<Rightarrow> False | Some t \<Rightarrow> t \<noteq> [] \<and> t \<noteq> ftype file)"

definition compressImage :: "jsfile \<Rightarrow> CompressOptions \<Rightarrow> thrown + jsfile \<Rightarrow> thrown + CompressResult" where
  "compressImage file options encoded =
     (let originalSize = fsize file in
      case encoded of
        Inl err \<Rightarrow>
          Inl (Error (''Image compression failed: '' @
                 (case err of Error m \<Rightarrow> m | NonError \<Rightarrow> ''Unknown compression error'')))
      | Inr compressedFile \<Rightarrow>
          (let compressedSize = fsize compressedFile;
               isInefficient = (compressedSize \<ge> originalSize)
           in if isInefficient \<and> \<not> isFormatForced file options
              then Inr \<lparr> res_file = file, res_originalSize = originalSize,
                         res_compressedSize = originalSize, res_compressionRatio = One,
                         res_wasSkipped = True \<rparr>
              else Inr \<lparr> res_file = compressedFile, res_originalSize = originalSize,
                         res_compressedSize = compressedSize,
                         res_compressionRatio = Quotient compressedSize originalSize,
                         res_wasSkipped = False \<rparr>))"

definition isImageFile :: "jsfile \<Rightarrow> bool" where
  "isImageFile file = prefix ''image/'' (ftype file)"

text \<open>
  \<open>formatFileSize\<close>, lines 76-82. \<open>unit_index\<close> is \<open>Math.floor(Math.log(bytes) / Math.log(k))\<close>
  read as the exact integer logarithm to base 1024. \<open>bytes / k ** i\<close> divides by a power
  of two, and \<open>toFixed(1)\<close> rounds that quotient to tenths, halves upwards: \<open>tenths\<close> is
  the rounded quotient times ten. \<open>Number.parseFloat\<close> followed by the template literal
  drops a fractional part of zero. \<open>units[i]\<close> outside the four units renders as
  \<open>undefined\<close>.
\<close>

function unit_index :: "nat \<Rightarrow> nat" where
  "unit_index bytes = (if bytes < 1024 then 0 else Suc (unit_index (bytes div 1024)))"
  by pat_completeness auto
termination
  by (relation "measure (\<lambda>n. n)") auto

declare unit_index.simps [simp del]

definition units :: "string list" where
  "units = [''B'', ''KB'', ''MB'', ''GB'']"

definition tenths :: "nat \<Rightarrow> nat \<Rightarrow> nat" where
  "tenths bytes i = (20 * bytes + 1024 ^ i) div (2 * 1024 ^ i)"

definition show_tenths :: "nat \<Rightarrow> string" where
  "show_tenths n =
     (if n mod 10 = 0 then show_nat (n div 10)
      else show_nat (n div 10) @ ''.'' @ show_nat (n mod 10))"

definition formatFileSize :: "nat \<Rightarrow> string" where
  "formatFileSize bytes =
     (if bytes = 0 then ''0 B''
      else let i = unit_index bytes
           in show_tenths (tenths bytes i) @ '' '' @
              (if i < length units then units ! i else ''undefined''))"

text \<open>
  \<open>getImageDimensions\<close>, lines 84-111: the fast bitmap decode when the platform has it,
  else (or when it throws) the image-element load, which rejects on a load error. The
  platform is the three parameters: whether \<open>createImageBitmap\<close> exists, what it yields
  for the file, and what loading the file into an image element yields (\<open>None\<close> is a
  failure).
\<close>

record dims =
  width :: nat
  height :: nat

definition getImageDimensions :: "bool \<Rightarrow> dims option \<Rightarrow> dims option \<Rightarrow> thrown + dims" where
  "getImageDimensions hasBitmap bitmap img =
     (let fallback = (case img of
                        Some d \<Rightarrow> Inr d
                      | None \<Rightarrow> Inl (Error ''Failed to load image dimensions''))
      in if hasBitmap
         then (case bitmap of Some d \<Rightarrow> Inr d | None \<Rightarrow> fallback)
         else fallback)"

section \<open>hooks/use-image-upload.ts: validation\<close>

record ValidationOptions =
  v_maxSizeMB :: "jsnumber optkey"
  allowedTypes :: "string list optkey"
  minWidth :: "nat option"
  minHeight :: "nat option"
  maxWidth :: "nat option"
  maxHeight :: "nat option"

definition DEFAULT_maxSizeMB :: jsnumber where
  "DEFAULT_maxSizeMB = Whole 10"

definition DEFAULT_allowedTypes :: "string list" where
  "DEFAULT_allowedTypes = [''image/jpeg'', ''image/png'', ''image/webp'', ''image/gif'']"

text \<open>\<open>Array.prototype.join\<close> with a separator.\<close>

fun join :: "string \<Rightarrow> string list \<Rightarrow> string" where
  "join sep [] = []"
| "join sep [x] = x"
| "join sep (x # y # ys) = x @ sep @ join sep (y # ys)"

text \<open>A pixel bound used as a condition: absent and zero are falsy.\<close>

definition truthy :: "nat option \<Rightarrow> bool" where
  "truthy n = (case n of None \<Rightarrow> False | Some k \<Rightarrow> k \<noteq> 0)"

text \<open>
  Line 64, \<open>{ ...DEFAULT_VALIDATION, ...options }\<close>: a key left out keeps the default, a
  key that is present replaces it, also by \<open>undefined\<close> (\<open>None\<close>).
\<close>

definition merged :: "'a \<Rightarrow> 'a optkey \<Rightarrow> 'a option" where
  "merged dflt k = (case k of Absent \<Rightarrow> Some dflt | PresentUndefined \<Rightarrow> None | Present v \<Rightarrow> Some v)"

text \<open>
  \<open>validateFile\<close>, lines 63-81; \<open>None\<close> is the source's \<open>null\<close> verdict. A check whose
  merged value is \<open>undefined\<close> is skipped, so the \<open>None\<close> branches inside the two
  messages are never reached.
\<close>

definition validateFile :: "jsfile \<Rightarrow> ValidationOptions \<Rightarrow> string option" where
  "validateFile file options =
     (let maxSizeMB = merged DEFAULT_maxSizeMB (v_maxSizeMB options);
          allowed = merged DEFAULT_allowedTypes (allowedTypes options)
      in if \<not> isImageFile file then Some ''File must be an image''
         else if (case allowed of None \<Rightarrow> False | Some ts \<Rightarrow> ftype file \<notin> set ts)
              then Some (''Allowed types: '' @ join '', '' (case allowed of None \<Rightarrow> [] | Some ts \<Rightarrow> ts))
         else if (case maxSizeMB of None \<Rightarrow> False
                  | Some m \<Rightarrow> truthy_number m \<and> exceeds_MB (fsize file) m)
              then Some (''File too large. Max: '' @
                         (case maxSizeMB of None \<Rightarrow> ''undefined'' | Some m \<Rightarrow> numberToString m) @
                         ''MB, Got: '' @ formatFileSize (fsize file))
         else None)"

text \<open>
  \<open>validateDimensions\<close>, lines 83-110, in its two synchronous parts. The first part
  either returns at once or suspends on the dimension probe; the second part runs when
  the probe has settled.
\<close>

datatype dim_step = Return "string option" | AwaitProbe

definition validateDimensions_start :: "ValidationOptions \<Rightarrow> dim_step" where
  "validateDimensions_start options =
     (if \<not> truthy (minWidth options) \<and> \<not> truthy (minHeight options) \<and>
         \<not> truthy (maxWidth options) \<and> \<not> truthy (maxHeight options)
      then Return None else AwaitProbe)"

definition validateDimensions_resume :: "ValidationOptions \<Rightarrow> thrown + dims \<Rightarrow> string option" where
  "validateDimensions_resume options probe =
     (case probe of
        Inl _ \<Rightarrow> Some ''Failed to read image dimensions''
      | Inr d \<Rightarrow>
          if truthy (minWidth options) \<and> width d < the (minWidth options)
            then Some (''Image width must be at least '' @ show_nat (the (minWidth options)) @ ''px'')
          else if truthy (minHeight options) \<and> height d < the (minHeight options)
            then Some (''Image height must be at least '' @ show_nat (the (minHeight options)) @ ''px'')
          else if truthy (maxWidth options) \<and> width d > the (maxWidth options)
            then Some (''Image width must be at most '' @ show_nat (the (maxWidth options)) @ ''px'')
          else if truthy (maxHeight options) \<and> height d > the (maxHeight options)
            then Some (''Image height must be at most '' @ show_nat (the (maxHeight options)) @ ''px'')
          else None)"

definition validateDimensions :: "ValidationOptions \<Rightarrow> thrown + dims \<Rightarrow> string option" where
  "validateDimensions options probe =
     (case validateDimensions_start options of
        Return r \<Rightarrow> r
      | AwaitProbe \<Rightarrow> validateDimensions_resume options probe)"

text \<open>
  The verdict \<open>handleFile\<close> acts on (lines 201-211): the synchronous checks first, the
  dimension checks only when those pass.
\<close>

definition validation_verdict :: "ValidationOptions \<Rightarrow> jsfile \<Rightarrow> thrown + dims \<Rightarrow> string option" where
  "validation_verdict options file probe =
     (case validateFile file options of
        Some e \<Rightarrow> Some e
      | None \<Rightarrow> validateDimensions options probe)"

definition dimensions_of :: "thrown + dims \<Rightarrow> dims option" where
  "dimensions_of probe = (case probe of Inl _ \<Rightarrow> None | Inr d \<Rightarrow> Some d)"

section \<open>Effects on the platform and on the embedding form\<close>

text \<open>
  Calls that leave the pipeline, in the order they are made. An object URL is the number
  of \<open>URL.createObjectURL\<close> calls made before it, so every allocation yields a fresh
  handle.
\<close>

type_synonym url = nat

datatype effect =
    CreateObjectURL jsfile
  | RevokeObjectURL url
  | Upload jsfile
  | OnChangeSingle string
  | OnChangeMultiple "string list"
  | ToastSuccess string
  | ToastError string
  | ConsoleLog string
  | ConsoleError string thrown
  | ConsoleErrorThrown thrown

fun is_create :: "effect \<Rightarrow> bool" where
  "is_create (CreateObjectURL _) = True"
| "is_create _ = False"

fun is_revoke :: "effect \<Rightarrow> bool" where
  "is_revoke (RevokeObjectURL _) = True"
| "is_revoke _ = False"

definition allocated :: "effect list \<Rightarrow> nat" where
  "allocated tr = length (filter is_create tr)"

definition released :: "effect list \<Rightarrow> nat" where
  "released tr = length (filter is_revoke tr)"

fun uploads :: "effect list \<Rightarrow> jsfile list" where
  "uploads [] = []"
| "uploads (Upload f # tr) = f # uploads tr"
| "uploads (_ # tr) = uploads tr"

fun is_onChange :: "effect \<Rightarrow> bool" where
  "is_onChange (OnChangeSingle _) = True"
| "is_onChange (OnChangeMultiple _) = True"
| "is_onChange _ = False"

section \<open>hooks/use-image-upload.ts: the hook\<close>

text \<open>The field \<open>file\<close> of the state is \<open>state_file\<close> here.\<close>

record ImageUploadState =
  state_file :: "jsfile option"
  compressedFile :: "jsfile option"
  preview :: "url option"
  isCompressing :: bool
  progress :: nat
  error :: "string option"
  originalSize :: nat
  compressedSize :: nat
  wasSkipped :: bool

definition INITIAL_STATE :: ImageUploadState where
  "INITIAL_STATE = \<lparr> state_file = None, compressedFile = None, preview = None,
     isCompressing = False, progress = 0, error = None, originalSize = 0,
     compressedSize = 0, wasSkipped = False \<rparr>"

record UseImageUploadOptions =
  compression :: CompressOptions
  validation :: ValidationOptions
  autoCompress :: bool
  generatePreview :: bool

text \<open>
  One mounted hook: the React state, the two refs, and the trace of object-URL calls it
  has made.
\<close>

record hook =
  state :: ImageUploadState
  previewUrlRef :: "url option"
  compressionIdRef :: nat
  hook_effects :: "effect list"

definition mount :: hook where
  "mount = \<lparr> state = INITIAL_STATE, previewUrlRef = None, compressionIdRef = 0,
             hook_effects = [] \<rparr>"

text \<open>
  An asynchronous function is split at its \<open>await\<close>s. Each part runs to the next
  suspension point and says what it is waiting for; the awaited outcome is the argument
  of the part that follows.
\<close>

datatype pending = Done | AwaitDimensions jsfile nat | AwaitCompression jsfile nat

definition cleanupPreview :: "hook \<Rightarrow> hook" where
  "cleanupPreview h =
     (case previewUrlRef h of
        Some u \<Rightarrow> h\<lparr> hook_effects := hook_effects h @ [RevokeObjectURL u], previewUrlRef := None \<rparr>
      | None \<Rightarrow> h)"

definition reset :: "hook \<Rightarrow> hook" where
  "reset h =
     (let h1 = h\<lparr> compressionIdRef := compressionIdRef h + 1 \<rparr>;
          h2 = cleanupPreview h1
      in h2\<lparr> state := INITIAL_STATE \<rparr>)"

text \<open>\<open>runCompression\<close>, lines 146-186: up to the \<open>await\<close>, the progress callback, and the rest.\<close>

definition runCompression_start :: "hook \<Rightarrow> jsfile \<Rightarrow> nat \<Rightarrow> hook \<times> pending" where
  "runCompression_start h f sessionId =
     (h\<lparr> state := (state h)\<lparr> isCompressing := True, progress := 0, error := None \<rparr> \<rparr>,
      AwaitCompression f sessionId)"

definition onProgress :: "hook \<Rightarrow> nat \<Rightarrow> nat \<Rightarrow> hook" where
  "onProgress h sessionId p =
     (if compressionIdRef h = sessionId
      then h\<lparr> state := (state h)\<lparr> progress := p \<rparr> \<rparr>
      else h)"

definition runCompression_resume ::
  "UseImageUploadOptions \<Rightarrow> hook \<Rightarrow> jsfile \<Rightarrow> nat \<Rightarrow> thrown + jsfile \<Rightarrow> hook" where
  "runCompression_resume opts h f sessionId encoded =
     (case compressImage f (compression opts) encoded of
        Inr result \<Rightarrow>
          if compressionIdRef h \<noteq> sessionId then h
          else h\<lparr> state := (state h)\<lparr> compressedFile := Some (res_file result),
                                         compressedSize := res_compressedSize result,
                                         wasSkipped := res_wasSkipped result,
                                         isCompressing := False,
                                         progress := 100 \<rparr> \<rparr>
      | Inl err \<Rightarrow>
          if compressionIdRef h \<noteq> sessionId then h
          else h\<lparr> state := (state h)\<lparr> isCompressing := False,
                    error := Some (case err of Error m \<Rightarrow> m | NonError \<Rightarrow> ''Compression failed'') \<rparr> \<rparr>)"

definition compress :: "hook \<Rightarrow> hook \<times> pending" where
  "compress h =
     (case state_file (state h) of
        None \<Rightarrow> (h, Done)
      | Some f \<Rightarrow>
          (let h1 = h\<lparr> compressionIdRef := compressionIdRef h + 1 \<rparr>
           in runCompression_start h1 f (compressionIdRef h1)))"

text \<open>
  \<open>handleFile\<close>, lines 194-231: up to \<open>await validateDimensions\<close>, and from there to
  \<open>await runCompression\<close>. The probe outcome is read only when \<open>validateDimensions\<close>
  asked for it.
\<close>

definition handleFile_start :: "UseImageUploadOptions \<Rightarrow> hook \<Rightarrow> jsfile \<Rightarrow> hook \<times> pending" where
  "handleFile_start opts h f =
     (let h1 = h\<lparr> compressionIdRef := compressionIdRef h + 1 \<rparr>;
          sessionId = compressionIdRef h1;
          h2 = cleanupPreview h1
      in case validateFile f (validation opts) of
           Some validationError \<Rightarrow>
             (h2\<lparr> state := INITIAL_STATE\<lparr> error := Some validationError \<rparr> \<rparr>, Done)
         | None \<Rightarrow> (h2, AwaitDimensions f sessionId))"

definition handleFile_resume ::
  "UseImageUploadOptions \<Rightarrow> hook \<Rightarrow> jsfile \<Rightarrow> nat \<Rightarrow> thrown + dims \<Rightarrow> hook \<times> pending" where
  "handleFile_resume opts h f sessionId probe =
     (case validateDimensions (validation opts) probe of
        Some dimensionError \<Rightarrow>
          (h\<lparr> state := INITIAL_STATE\<lparr> error := Some dimensionError \<rparr> \<rparr>, Done)
      | None \<Rightarrow>
          (let u = allocated (hook_effects h);
               h1 = (if generatePreview opts
                     then h\<lparr> hook_effects := hook_effects h @ [CreateObjectURL f],
                             previewUrlRef := Some u \<rparr>
                     else h);
               h2 = h1\<lparr> state := INITIAL_STATE\<lparr> state_file := Some f,
                          preview := (if generatePreview opts then Some u else None),
                          originalSize := fsize f \<rparr> \<rparr>
           in if autoCompress opts then runCompression_start h2 f sessionId else (h2, Done)))"

text \<open>
  What can happen to a mounted hook, one synchronous part at a time: a call of its
  interface, the settling of an awaited stage of some session, a progress report of some
  session, and teardown (the effect cleanup of lines 134-138).
\<close>

datatype event =
    HandleFile jsfile
  | DimensionsSettled jsfile nat "thrown + dims"
  | Progress nat nat
  | CompressionSettled jsfile nat "thrown + jsfile"
  | Reset
  | Compress
  | Unmount

fun step :: "UseImageUploadOptions \<Rightarrow> hook \<Rightarrow> event \<Rightarrow> hook" where
  "step opts h (HandleFile f) = fst (handleFile_start opts h f)"
| "step opts h (DimensionsSettled f sid probe) = fst (handleFile_resume opts h f sid probe)"
| "step opts h (Progress sid p) = onProgress h sid p"
| "step opts h (CompressionSettled f sid encoded) = runCompression_resume opts h f sid encoded"
| "step opts h Reset = reset h"
| "step opts h Compress = fst (compress h)"
| "step opts h Unmount = cleanupPreview h"

definition run :: "UseImageUploadOptions \<Rightarrow> hook \<Rightarrow> event list \<Rightarrow> hook" where
  "run opts h es = foldl (step opts) h es"

text \<open>The events that begin a new session: they increment the session counter.\<close>

fun starts_session :: "hook \<Rightarrow> event \<Rightarrow> bool" where
  "starts_session h (HandleFile f) = True"
| "starts_session h Reset = True"
| "starts_session h Compress = (state_file (state h) \<noteq> None)"
| "starts_session h _ = False"

text \<open>
  A selection that nothing interleaves with: \<open>handleFile\<close> run through its dimension
  check, up to the start of compression.
\<close>

definition select :: "UseImageUploadOptions \<Rightarrow> hook \<Rightarrow> jsfile \<Rightarrow> thrown + dims \<Rightarrow> hook" where
  "select opts h f probe =
     (case handleFile_start opts h f of
        (h1, AwaitDimensions f' sid) \<Rightarrow> fst (handleFile_resume opts h1 f' sid probe)
      | (h1, _) \<Rightarrow> h1)"

section \<open>components/file-upload.tsx\<close>

text \<open>
  The props the handlers read. \<open>value\<close> is a string in single mode, a list in multiple
  mode, or left out. \<open>onUpload\<close> is the upload contract: the URL its promise resolves
  to, or the rejection reason.
\<close>

datatype jsvalue = Undefined | Str string | Arr "string list"

record props =
  multiple :: bool
  value_prop :: jsvalue
  onUpload :: "jsfile \<Rightarrow> thrown + string"
  compressionOptions :: CompressOptions

type_synonym area = "nat \<times> nat \<times> nat \<times> nat"

text \<open>
  The component's state that its handlers read or write, and the trace of the calls it
  has made. The pan and zoom of the crop dialog are read by no handler and are left out.
\<close>

record FileUpload =
  imageSrc :: "url option"
  croppedAreaPixels :: "area option"
  isUploading :: bool
  progressText :: string
  effects :: "effect list"

definition FileUpload_mount :: FileUpload where
  "FileUpload_mount = \<lparr> imageSrc = None, croppedAreaPixels = None, isUploading = False,
     progressText = [], effects = [] \<rparr>"

text \<open>\<open>Promise.all\<close> over settled outcomes: the values in order, or a rejection.\<close>

fun promise_all :: "(thrown + 'a) list \<Rightarrow> thrown + 'a list" where
  "promise_all [] = Inr []"
| "promise_all (Inl e # rs) = Inl e"
| "promise_all (Inr x # rs) = (case promise_all rs of Inl e \<Rightarrow> Inl e | Inr xs \<Rightarrow> Inr (x # xs))"

text \<open>
  The per-file callback of lines 83-99: the compression outcome's file, or on a
  compression error the file itself. \<open>encoder\<close> gives the external encoder's outcome
  for each file.
\<close>

definition compress_or_original ::
  "props \<Rightarrow> (jsfile \<Rightarrow> thrown + jsfile) \<Rightarrow> jsfile \<Rightarrow> jsfile \<times> effect" where
  "compress_or_original p encoder f =
     (case compressImage f (compressionOptions p) (encoder f) of
        Inr result \<Rightarrow>
          (res_file result,
           ConsoleLog (''Compressed '' @ fname f @ '': '' @
                       formatFileSize (res_originalSize result) @ '' -> '' @
                       formatFileSize (res_compressedSize result)))
      | Inl err \<Rightarrow>
          (f, ConsoleError (''Gagal compress '' @ fname f @ '', menggunakan file asli'') err))"

text \<open>
  \<open>onDrop\<close>, lines 73-128, run from the drop to its end. The files of a batch are
  handled in parallel; their log lines and upload calls are recorded in file order.
\<close>

definition onDrop ::
  "props \<Rightarrow> (jsfile \<Rightarrow> thrown + jsfile) \<Rightarrow> FileUpload \<Rightarrow> jsfile list \<Rightarrow> FileUpload" where
  "onDrop p encoder s acceptedFiles =
     (if multiple p then
        (if length acceptedFiles = 0 then s
         else
           let cs = map (compress_or_original p encoder) acceptedFiles;
               compressedFiles = map fst cs;
               tr = effects s @ map snd cs @ map Upload compressedFiles
           in case promise_all (map (onUpload p) compressedFiles) of
                Inr newUrls \<Rightarrow>
                  (let currentValues = (case value_prop p of Arr v \<Rightarrow> v | _ \<Rightarrow> [])
                   in s\<lparr> effects := tr @
                             [OnChangeMultiple (currentValues @ newUrls),
                              ToastSuccess (show_nat (length newUrls) @ '' gambar berhasil diupload'')],
                          isUploading := False, progressText := [] \<rparr>)
              | Inl err \<Rightarrow>
                  s\<lparr> effects := tr @
                        [ConsoleErrorThrown err, ToastError ''Gagal mengupload beberapa gambar''],
                     isUploading := False, progressText := [] \<rparr>)
      else
        (case acceptedFiles of
           [] \<Rightarrow> s
         | f # _ \<Rightarrow> s\<lparr> effects := effects s @ [CreateObjectURL f],
                        imageSrc := Some (allocated (effects s)) \<rparr>))"

definition handleClose :: "FileUpload \<Rightarrow> FileUpload" where
  "handleClose s = s\<lparr> imageSrc := None \<rparr>"

text \<open>
  The \<open>try\<close> block of \<open>handleCropAndUpload\<close>, lines 145-165, up to the upload's outcome.
  \<open>cropped\<close> is the awaited outcome of the cropping primitive \<open>getCroppedImg\<close>: the
  byte size of the blob, \<open>None\<close> for no blob, or what it threw.
\<close>

definition crop_compress_upload ::
  "props \<Rightarrow> (jsfile \<Rightarrow> thrown + jsfile) \<Rightarrow> thrown + nat option \<Rightarrow> effect list \<times> (thrown + string)" where
  "crop_compress_upload p encoder cropped =
     (case cropped of
        Inl err \<Rightarrow> ([], Inl err)
      | Inr None \<Rightarrow> ([], Inl (Error ''Gagal memproses gambar''))
      | Inr (Some blobSize) \<Rightarrow>
          (let croppedFile = \<lparr> fname = ''cropped-image.jpg'', ftype = ''image/jpeg'',
                                fsize = blobSize \<rparr>
           in case compressImage croppedFile (compressionOptions p) (encoder croppedFile) of
                Inl err \<Rightarrow> ([], Inl err)
              | Inr compressedResult \<Rightarrow>
                  ([ConsoleLog (''Optimization: '' @
                                formatFileSize (res_originalSize compressedResult) @ '' -> '' @
                                formatFileSize (res_compressedSize compressedResult)),
                    Upload (res_file compressedResult)],
                   onUpload p (res_file compressedResult))))"

definition handleCropAndUpload ::
  "props \<Rightarrow> (jsfile \<Rightarrow> thrown + jsfile) \<Rightarrow> FileUpload \<Rightarrow> thrown + nat option \<Rightarrow> FileUpload" where
  "handleCropAndUpload p encoder s cropped =
     (if imageSrc s = None \<or> croppedAreaPixels s = None then s
      else
        case crop_compress_upload p encoder cropped of
          (tr, Inr uploadedUrl) \<Rightarrow>
            (handleClose s)\<lparr> effects := effects s @ tr @
                               (if \<not> multiple p then [OnChangeSingle uploadedUrl] else []) @
                               [ToastSuccess ''Gambar berhasil diupload''],
                             isUploading := False, progressText := [] \<rparr>
        | (tr, Inl err) \<Rightarrow>
            s\<lparr> effects := effects s @ tr @
                  [ConsoleErrorThrown err, ToastError ''Gagal mengupload gambar''],
               isUploading := False, progressText := [] \<rparr>)"

definition onCropComplete :: "FileUpload \<Rightarrow> area \<Rightarrow> FileUpload" where
  "onCropComplete s pixels = s\<lparr> croppedAreaPixels := Some pixels \<rparr>"

definition handleRemove :: "props \<Rightarrow> FileUpload \<Rightarrow> string \<Rightarrow> FileUpload" where
  "handleRemove p s urlToRemove =
     (case (multiple p, value_prop p) of
        (True, Arr v) \<Rightarrow>
          s\<lparr> effects := effects s @ [OnChangeMultiple (filter (\<lambda>u. u \<noteq> urlToRemove) v)] \<rparr>
      | _ \<Rightarrow> s\<lparr> effects := effects s @ [OnChangeSingle []] \<rparr>)"

text \<open>
  The preview handles of a hook are in balance when every allocated handle has been
  released, except the one the ref still holds.
\<close>

definition balanced :: "hook \<Rightarrow> bool" where
  "balanced h \<longleftrightarrow>
     allocated (hook_effects h)
       = released (hook_effects h) + (if previewUrlRef h = None then 0 else 1)"

section \<open>Sample inputs\<close>

text \<open>
  Concrete files and configurations at which the theorems below are evaluated. The
  defaults are those of the source: the hook's destructuring defaults (lines 115-120 of
  the hook) and the component's default \<open>compressionOptions\<close> (line 62 of the component).
\<close>

abbreviation png_a :: jsfile where
  "png_a \<equiv> \<lparr> fname = ''a.png'', ftype = ''image/png'', fsize = 102400 \<rparr>"

abbreviation png_b :: jsfile where
  "png_b \<equiv> \<lparr> fname = ''b.png'', ftype = ''image/png'', fsize = 102400 \<rparr>"

abbreviation png_a_larger :: jsfile where
  "png_a_larger \<equiv> \<lparr> fname = ''a.png'', ftype = ''image/png'', fsize = 122880 \<rparr>"

abbreviation png_a_smaller :: jsfile where
  "png_a_smaller \<equiv> \<lparr> fname = ''a.png'', ftype = ''image/png'', fsize = 51200 \<rparr>"

abbreviation png_768KB :: jsfile where
  "png_768KB \<equiv> \<lparr> fname = ''c.png'', ftype = ''image/png'', fsize = 768 * 1024 \<rparr>"

abbreviation png_6MB :: jsfile where
  "png_6MB \<equiv> \<lparr> fname = ''photo.png'', ftype = ''image/png'', fsize = 6 * 1024 * 1024 \<rparr>"

abbreviation pdf_20MB :: jsfile where
  "pdf_20MB \<equiv> \<lparr> fname = ''scan.pdf'', ftype = ''application/pdf'', fsize = 20 * 1024 * 1024 \<rparr>"

abbreviation bmp_20MB :: jsfile where
  "bmp_20MB \<equiv> \<lparr> fname = ''scan.bmp'', ftype = ''image/bmp'', fsize = 20 * 1024 * 1024 \<rparr>"

abbreviation default_compressionOptions :: CompressOptions where
  "default_compressionOptions \<equiv>
     \<lparr> maxWidthOrHeight = Some 1920, maxSizeMB = Some 1, fileType = None \<rparr>"

abbreviation no_validation :: ValidationOptions where
  "no_validation \<equiv> \<lparr> v_maxSizeMB = Absent, allowedTypes = Absent, minWidth = None,
     minHeight = None, maxWidth = None, maxHeight = None \<rparr>"

abbreviation limit_5MB :: ValidationOptions where
  "limit_5MB \<equiv> \<lparr> v_maxSizeMB = Present (Whole 5), allowedTypes = Absent, minWidth = None,
     minHeight = None, maxWidth = None, maxHeight = None \<rparr>"

abbreviation limit_0MB :: ValidationOptions where
  "limit_0MB \<equiv> \<lparr> v_maxSizeMB = Present (Whole 0), allowedTypes = Absent, minWidth = None,
     minHeight = None, maxWidth = None, maxHeight = None \<rparr>"

abbreviation limit_half_MB :: ValidationOptions where
  "limit_half_MB \<equiv> \<lparr> v_maxSizeMB = Present (Other (1 / 2) ''0.5''), allowedTypes = Absent,
     minWidth = None, minHeight = None, maxWidth = None, maxHeight = None \<rparr>"

abbreviation undefined_checks :: ValidationOptions where
  "undefined_checks \<equiv> \<lparr> v_maxSizeMB = PresentUndefined, allowedTypes = PresentUndefined,
     minWidth = None, minHeight = None, maxWidth = None, maxHeight = None \<rparr>"

abbreviation minWidth_100 :: ValidationOptions where
  "minWidth_100 \<equiv> \<lparr> v_maxSizeMB = Absent, allowedTypes = Absent, minWidth = Some 100,
     minHeight = None, maxWidth = None, maxHeight = None \<rparr>"

abbreviation default_options :: UseImageUploadOptions where
  "default_options \<equiv>
     \<lparr> compression = \<lparr> maxWidthOrHeight = None, maxSizeMB = None, fileType = None \<rparr>,
       validation = no_validation, autoCompress = True, generatePreview = True \<rparr>"

abbreviation probing_options :: UseImageUploadOptions where
  "probing_options \<equiv>
     \<lparr> compression = \<lparr> maxWidthOrHeight = None, maxSizeMB = None, fileType = None \<rparr>,
       validation = minWidth_100, autoCompress = True, generatePreview = True \<rparr>"

abbreviation square_64 :: dims where
  "square_64 \<equiv> \<lparr> width = 64, height = 64 \<rparr>"

abbreviation vga :: dims where
  "vga \<equiv> \<lparr> width = 640, height = 480 \<rparr>"

text \<open>
  A component in multiple mode over the committed list \<open>[u0]\<close> and one in single mode;
  the upload contract answers with the file's name as its URL. \<open>failing_encoder\<close> throws
  an \<open>Error\<close> for every file.
\<close>

abbreviation multiple_props :: props where
  "multiple_props \<equiv> \<lparr> multiple = True, value_prop = Arr [''u0''], onUpload = Inr \<circ> fname,
     compressionOptions = default_compressionOptions \<rparr>"

abbreviation single_props :: props where
  "single_props \<equiv> \<lparr> multiple = False, value_prop = Undefined, onUpload = Inr \<circ> fname,
     compressionOptions = default_compressionOptions \<rparr>"

abbreviation failing_encoder :: "jsfile \<Rightarrow> thrown + jsfile" where
  "failing_encoder \<equiv> Inl \<circ> Error \<circ> fname"

section \<open>Evaluation of the number rendering\<close>

lemma show_nat_digit: "n < 10 \<Longrightarrow> show_nat n = [digit n]"
  by (simp add: show_nat.simps)

lemma show_nat_5: "show_nat 5 = ''5''"
  by (simp add: show_nat_digit digit_def)

lemma show_nat_6: "show_nat 6 = ''6''"
  by (simp add: show_nat_digit digit_def)

lemma unit_index_6MB: "unit_index 6291456 = 2"
  by (simp add: unit_index.simps)

lemma tenths_6MB: "tenths 6291456 2 = 60"
  by (simp add: tenths_def)

lemma formatFileSize_6MB: "formatFileSize 6291456 = ''6 MB''"
  by (simp add: formatFileSize_def Let_def unit_index_6MB tenths_6MB show_tenths_def
        show_nat_6 units_def)

lemma show_nat_768: "show_nat 768 = ''768''"
  by (simp add: show_nat.simps [of 768] show_nat.simps [of 76] show_nat_digit digit_def)

lemma unit_index_768KB: "unit_index 786432 = Suc 0"
  by (simp add: unit_index.simps)

lemma tenths_768KB: "tenths 786432 (Suc 0) = 7680"
  by (simp add: tenths_def)

lemma formatFileSize_768KB: "formatFileSize 786432 = ''768 KB''"
  by (simp add: formatFileSize_def Let_def unit_index_768KB tenths_768KB show_tenths_def
        show_nat_768 units_def)

section \<open>The session counter\<close>

lemma cleanupPreview_counter: "compressionIdRef (cleanupPreview h) = compressionIdRef h"
  by (simp add: cleanupPreview_def split: option.splits)

lemma step_counter_mono: "compressionIdRef h \<le> compressionIdRef (step opts h ev)"
  by (cases ev)
     (auto simp: handleFile_start_def handleFile_resume_def onProgress_def
        runCompression_resume_def runCompression_start_def reset_def compress_def
        cleanupPreview_counter Let_def
        split: option.splits sum.splits)

lemma run_counter_mono: "compressionIdRef h \<le> compressionIdRef (run opts h es)"
  unfolding run_def
proof (induction es arbitrary: h)
  case Nil
  show ?case by simp
next
  case (Cons e es)
  have "compressionIdRef h \<le> compressionIdRef (step opts h e)"
    by (rule step_counter_mono)
  also have "\<dots> \<le> compressionIdRef (foldl (step opts) (step opts h e) es)"
    by (rule Cons.IH)
  finally show ?case by simp
qed

lemma starts_session_counter:
  "starts_session h ev \<Longrightarrow> compressionIdRef h < compressionIdRef (step opts h ev)"
  by (cases ev)
     (auto simp: handleFile_start_def reset_def compress_def runCompression_start_def
        cleanupPreview_counter Let_def split: option.splits)

lemma run_append: "run opts h (es1 @ es2) = run opts (run opts h es1) es2"
  by (simp add: run_def)

lemma run_Cons: "run opts h (e # es) = run opts (step opts h e) es"
  by (simp add: run_def)

lemma run_Nil: "run opts h [] = h"
  by (simp add: run_def)

lemma stale_counter:
  assumes "starts_session (run opts h es1) b"
  shows "compressionIdRef h < compressionIdRef (run opts h (es1 @ b # es2))"
proof -
  have "compressionIdRef h \<le> compressionIdRef (run opts h es1)"
    by (rule run_counter_mono)
  also have "\<dots> < compressionIdRef (step opts (run opts h es1) b)"
    using assms by (rule starts_session_counter)
  also have "\<dots> \<le> compressionIdRef (run opts (step opts (run opts h es1) b) es2)"
    by (rule run_counter_mono)
  finally show ?thesis by (simp add: run_append run_Cons)
qed

text \<open>
  The resolution of the session that is still the active one is applied: its outcome
  becomes the compressed file of the state.
\<close>

lemma active_session_applies:
  assumes "compressionIdRef h = sid"
    and "compressImage f (compression opts) encoded = Inr result"
  shows "compressedFile (state (runCompression_resume opts h f sid encoded)) = Some (res_file result)
       \<and> progress (state (runCompression_resume opts h f sid encoded)) = 100
       \<and> \<not> isCompressing (state (runCompression_resume opts h f sid encoded))"
  using assms by (simp add: runCompression_resume_def)

text \<open>
  C1. Let \<open>sidA\<close> be the token of the session that is active in \<open>h\<close> (session A, just
  started). After any events \<open>es1\<close>, an event \<open>b\<close> that starts a new session
  (\<open>handleFile\<close>, \<open>reset\<close>, or \<open>compress\<close> with a file selected) and any further events
  \<open>es2\<close>, a progress report of session A and the settling of session A's compression,
  with a result or with an error, leave the whole hook as it is: its state, its refs and
  its object-URL calls.
\<close>

theorem session_invalidation:
  assumes A: "sidA = compressionIdRef h"
    and B: "starts_session (run opts h es1) b"
  shows "step opts (run opts h (es1 @ b # es2)) (Progress sidA p) = run opts h (es1 @ b # es2)
       \<and> step opts (run opts h (es1 @ b # es2)) (CompressionSettled f sidA encoded)
           = run opts h (es1 @ b # es2)"
proof -
  have "compressionIdRef (run opts h (es1 @ b # es2)) \<noteq> sidA"
    using stale_counter [OF B, of es2] A by simp
  then show ?thesis
    by (simp add: onProgress_def runCompression_resume_def split: sum.splits)
qed

theorem session_invalidation_witness:
  "compressionIdRef (step default_options mount (HandleFile png_a)) = 1
   \<and> step default_options
        (run default_options (step default_options mount (HandleFile png_a))
           ([DimensionsSettled png_a 1 (Inr square_64)] @ HandleFile png_b # []))
        (Progress 1 50)
      = run default_options (step default_options mount (HandleFile png_a))
           ([DimensionsSettled png_a 1 (Inr square_64)] @ HandleFile png_b # [])
   \<and> step default_options
        (run default_options (step default_options mount (HandleFile png_a))
           ([DimensionsSettled png_a 1 (Inr square_64)] @ HandleFile png_b # []))
        (CompressionSettled png_a 1 (Inr png_a_smaller))
      = run default_options (step default_options mount (HandleFile png_a))
           ([DimensionsSettled png_a 1 (Inr square_64)] @ HandleFile png_b # [])"
proof -
  have a: "1 = compressionIdRef (step default_options mount (HandleFile png_a))"
    by (simp add: handleFile_start_def Let_def cleanupPreview_counter mount_def
          split: option.splits)
  have b: "starts_session
             (run default_options (step default_options mount (HandleFile png_a))
                [DimensionsSettled png_a 1 (Inr square_64)])
             (HandleFile png_b)"
    by simp
  from session_invalidation [OF a b, where ?es2.0 = "[]" and p = 50 and f = png_a
      and encoded = "Inr png_a_smaller"]
  show ?thesis using a by simp
qed

section \<open>The skip policy of the compressor\<close>

text \<open>
  C2. When the encoder's output is at least as large as the input and no other MIME type
  is requested (\<open>fileType\<close> is left out or is the file's own type), \<open>compressImage\<close>
  returns the original file with \<open>wasSkipped = true\<close>, \<open>compressedSize = originalSize\<close>
  and \<open>compressionRatio = 1\<close>. When the output is strictly smaller, or a \<open>fileType\<close>
  other than the file's type is requested (the option's type admits non-empty strings
  only), it returns the encoder's file with \<open>wasSkipped = false\<close>.
\<close>

theorem compressImage_skip_policy:
  "(fsize c \<ge> fsize f \<and> (fileType opts = None \<or> fileType opts = Some (ftype f)) \<longrightarrow>
      compressImage f opts (Inr c) =
        Inr \<lparr> res_file = f, res_originalSize = fsize f, res_compressedSize = fsize f,
               res_compressionRatio = One, res_wasSkipped = True \<rparr>)
   \<and> (fsize c < fsize f \<or> (\<exists>t. fileType opts = Some t \<and> t \<noteq> [] \<and> t \<noteq> ftype f) \<longrightarrow>
      (\<exists>r. compressImage f opts (Inr c) = Inr r \<and> res_file r = c \<and> \<not> res_wasSkipped r
           \<and> res_compressedSize r = fsize c \<and> res_originalSize r = fsize f))"
  by (auto simp: compressImage_def isFormatForced_def Let_def split: option.splits)

theorem compressImage_skip_policy_witness:
  "compressImage png_a default_compressionOptions (Inr png_a_larger) =
     Inr \<lparr> res_file = png_a, res_originalSize = 102400, res_compressedSize = 102400,
            res_compressionRatio = One, res_wasSkipped = True \<rparr>
   \<and> (\<exists>r. compressImage png_a default_compressionOptions (Inr png_a_smaller) = Inr r
          \<and> res_file r = png_a_smaller \<and> \<not> res_wasSkipped r
          \<and> res_compressedSize r = 51200 \<and> res_originalSize r = 102400)
   \<and> (\<exists>r. compressImage png_a
             \<lparr> maxWidthOrHeight = None, maxSizeMB = None, fileType = Some ''image/webp'' \<rparr>
             (Inr \<lparr> fname = ''a.webp'', ftype = ''image/webp'', fsize = 122880 \<rparr>) = Inr r
          \<and> res_file r = \<lparr> fname = ''a.webp'', ftype = ''image/webp'', fsize = 122880 \<rparr>
          \<and> \<not> res_wasSkipped r)"
  using compressImage_skip_policy [of png_a png_a_larger default_compressionOptions]
    compressImage_skip_policy [of png_a png_a_smaller default_compressionOptions]
    compressImage_skip_policy [of png_a "\<lparr> fname = ''a.webp'', ftype = ''image/webp'', fsize = 122880 \<rparr>"
      "\<lparr> maxWidthOrHeight = None, maxSizeMB = None, fileType = Some ''image/webp'' \<rparr>"]
  by auto

section \<open>The batch commit of multiple mode\<close>

lemma promise_all_Inl: "(\<exists>e. promise_all rs = Inl e) \<longleftrightarrow> (\<exists>r \<in> set rs. isl r)"
proof (induction rs)
  case Nil
  show ?case by simp
next
  case (Cons r rs)
  show ?case
  proof (cases r)
    case (Inl e)
    then show ?thesis by simp
  next
    case (Inr x)
    with Cons.IH show ?thesis by (auto split: sum.splits)
  qed
qed

lemma promise_all_Inr: "\<forall>r \<in> set rs. \<not> isl r \<Longrightarrow> promise_all rs = Inr (map projr rs)"
proof (induction rs)
  case Nil
  show ?case by simp
next
  case (Cons r rs)
  then show ?case by (cases r) auto
qed

lemma filter_onChange_logs:
  "filter is_onChange (map (snd \<circ> compress_or_original p encoder) fs) = []"
  by (induction fs) (auto simp: compress_or_original_def split: sum.splits)

lemma filter_onChange_uploads: "filter is_onChange (map Upload fs) = []"
  by (induction fs) auto

lemma uploads_append: "uploads (xs @ ys) = uploads xs @ uploads ys"
  by (induction xs rule: uploads.induct) auto

lemma uploads_logs: "uploads (map (snd \<circ> compress_or_original p encoder) fs) = []"
  by (induction fs) (auto simp: compress_or_original_def split: sum.splits)

lemma uploads_map_Upload: "uploads (map Upload fs) = fs"
  by (induction fs) auto

lemma released_append: "released (xs @ ys) = released xs + released ys"
  by (simp add: released_def)

lemma released_logs: "released (map (snd \<circ> compress_or_original p encoder) fs) = 0"
  by (induction fs) (auto simp: released_def compress_or_original_def split: sum.splits)

lemma released_map_Upload: "released (map Upload fs) = 0"
  by (induction fs) (auto simp: released_def)

text \<open>
  The calls of a batch in multiple mode: one log line per file, one upload per file, and
  a rest that holds no upload and no release.
\<close>

lemma onDrop_multiple_effects:
  assumes "multiple p" and "acceptedFiles \<noteq> []"
  shows "\<exists>rest. effects (onDrop p encoder s acceptedFiles)
             = effects s @ map (snd \<circ> compress_or_original p encoder) acceptedFiles @
               map Upload (map (fst \<circ> compress_or_original p encoder) acceptedFiles) @ rest
           \<and> uploads rest = [] \<and> released rest = 0"
  using assms
  by (auto simp: onDrop_def Let_def released_def split: sum.splits)

lemma onDrop_multiple_uploads:
  assumes "multiple p"
  shows "uploads (effects (onDrop p encoder s acceptedFiles))
           = uploads (effects s) @ map (fst \<circ> compress_or_original p encoder) acceptedFiles"
proof (cases "acceptedFiles = []")
  case True
  with assms show ?thesis by (simp add: onDrop_def)
next
  case False
  with assms obtain rest where
    "effects (onDrop p encoder s acceptedFiles)
       = effects s @ map (snd \<circ> compress_or_original p encoder) acceptedFiles @
         map Upload (map (fst \<circ> compress_or_original p encoder) acceptedFiles) @ rest"
    and "uploads rest = []"
    using onDrop_multiple_effects by blast
  then show ?thesis
    by (simp add: uploads_append uploads_logs uploads_map_Upload del: map_map)
qed

lemma compress_or_original_failure:
  "isl (encoder f) \<Longrightarrow> fst (compress_or_original p encoder f) = f"
  by (cases "encoder f") (auto simp: compress_or_original_def compressImage_def)

lemma compress_or_original_same:
  "fileType (compressionOptions p) = None \<Longrightarrow> fst (compress_or_original p Inr f) = f"
  by (simp add: compress_or_original_def compressImage_def isFormatForced_def Let_def)

text \<open>
  C3. In multiple mode, when the upload of at least one file of the batch (as it leaves
  the compression stage) rejects, \<open>onDrop\<close> makes no \<open>onChange\<close> call: the \<open>onChange\<close>
  calls after the batch are those made before it.
\<close>

theorem batch_atomicity:
  assumes "multiple p"
    and "\<exists>f \<in> set (map (fst \<circ> compress_or_original p encoder) acceptedFiles). isl (onUpload p f)"
  shows "filter is_onChange (effects (onDrop p encoder s acceptedFiles))
           = filter is_onChange (effects s)"
proof -
  let ?cf = "map fst (map (compress_or_original p encoder) acceptedFiles)"
  have "\<exists>r \<in> set (map (onUpload p) ?cf). isl r"
    using assms(2) by auto
  then obtain e where "promise_all (map (onUpload p) ?cf) = Inl e"
    using promise_all_Inl by blast
  then show ?thesis
    using assms(1)
    by (simp add: onDrop_def Let_def filter_onChange_logs filter_onChange_uploads comp_assoc)
qed

theorem batch_atomicity_witness:
  "filter is_onChange
     (effects (onDrop (multiple_props\<lparr> onUpload := (Inr \<circ> fname)(png_b := Inl (Error ''network'')) \<rparr>)
                Inr FileUpload_mount [png_a, png_b]))
     = []"
proof -
  have rejects: "\<exists>f \<in> set (map (fst \<circ> compress_or_original
                (multiple_props\<lparr> onUpload := (Inr \<circ> fname)(png_b := Inl (Error ''network'')) \<rparr>) Inr)
                [png_a, png_b]).
            isl (onUpload (multiple_props\<lparr> onUpload := (Inr \<circ> fname)(png_b := Inl (Error ''network'')) \<rparr>) f)"
    by (simp add: compress_or_original_same)
  have "multiple (multiple_props\<lparr> onUpload := (Inr \<circ> fname)(png_b := Inl (Error ''network'')) \<rparr>)"
    by simp
  from batch_atomicity [OF this rejects, of FileUpload_mount]
  show ?thesis by (simp add: FileUpload_mount_def)
qed

text \<open>
  C6. In multiple mode, for a committed list \<open>V\<close> and a non-empty batch whose uploads all
  succeed, \<open>onDrop\<close> makes exactly one \<open>onChange\<close> call, with \<open>V\<close> followed by the
  uploads' URLs in the order of the batch.
\<close>

theorem batch_append:
  assumes "multiple p" and "acceptedFiles \<noteq> []" and "value_prop p = Arr V"
    and "\<forall>f \<in> set (map (fst \<circ> compress_or_original p encoder) acceptedFiles). \<not> isl (onUpload p f)"
  shows "filter is_onChange (effects (onDrop p encoder s acceptedFiles))
           = filter is_onChange (effects s) @
             [OnChangeMultiple (V @ map (projr \<circ> onUpload p)
                                     (map (fst \<circ> compress_or_original p encoder) acceptedFiles))]"
proof -
  let ?cf = "map fst (map (compress_or_original p encoder) acceptedFiles)"
  have "\<forall>r \<in> set (map (onUpload p) ?cf). \<not> isl r"
    using assms(4) by auto
  then have "promise_all (map (onUpload p) ?cf) = Inr (map projr (map (onUpload p) ?cf))"
    by (rule promise_all_Inr)
  then show ?thesis
    using assms(1-3)
    by (simp add: onDrop_def Let_def filter_onChange_logs filter_onChange_uploads comp_assoc)
qed

theorem batch_append_witness:
  "filter is_onChange (effects (onDrop multiple_props Inr FileUpload_mount [png_a, png_b]))
     = [OnChangeMultiple [''u0'', ''a.png'', ''b.png'']]"
proof -
  have ok: "\<forall>f \<in> set (map (fst \<circ> compress_or_original multiple_props Inr) [png_a, png_b]).
              \<not> isl (onUpload multiple_props f)"
    by (simp add: compress_or_original_same)
  have "multiple multiple_props" and "[png_a, png_b] \<noteq> []"
    and "value_prop multiple_props = Arr [''u0'']"
    by simp_all
  from batch_append [OF this ok, of FileUpload_mount]
  show ?thesis by (simp add: FileUpload_mount_def compress_or_original_same)
qed

section \<open>Compression failures\<close>

text \<open>
  C4, as the claim states it, fails in multiple mode: the per-file callback of \<open>onDrop\<close>
  catches the compression error and returns the file itself, which is then uploaded.
  Here the encoder throws for \<open>a.png\<close>, compression fails, and the one upload call is
  made with the uncompressed \<open>a.png\<close>.
\<close>

theorem compression_fallback_counterexample:
  "isl (compressImage png_a default_compressionOptions (failing_encoder png_a))
   \<and> uploads (effects (onDrop multiple_props failing_encoder FileUpload_mount [png_a]))
       = [png_a]"
  by (simp add: onDrop_def compress_or_original_def compressImage_def FileUpload_mount_def)

text \<open>
  C4, amended. When the encoder throws \<open>err\<close> for a file, compression fails with the
  message \<open>Image compression failed: \<close> followed by the message of \<open>err\<close> (or by
  \<open>Unknown compression error\<close> when \<open>err\<close> is no \<open>Error\<close>), and:
  \<^item> in multiple mode, \<open>onDrop\<close> logs \<open>Gagal compress <name>, menggunakan file asli\<close>
    with that error through \<open>console.error\<close> and hands the original file to the upload
    contract in its place;
  \<^item> in the crop-and-upload path, the calls made are exactly \<open>console.error\<close> with that
    error and the error toast \<open>Gagal mengupload gambar\<close>: no upload and no \<open>onChange\<close>;
  \<^item> in the hook, the active session's state gets that message as its \<open>error\<close> and
    \<open>isCompressing = false\<close>, and nothing else of the hook changes.
\<close>

theorem compression_failure_handling:
  "(multiple p \<and> f \<in> set acceptedFiles \<and> encoder f = Inl err \<longrightarrow>
      compress_or_original p encoder f =
        (f, ConsoleError (''Gagal compress '' @ fname f @ '', menggunakan file asli'')
              (Error (''Image compression failed: '' @
                 (case err of Error m \<Rightarrow> m | NonError \<Rightarrow> ''Unknown compression error'')))) \<and>
      ConsoleError (''Gagal compress '' @ fname f @ '', menggunakan file asli'')
        (Error (''Image compression failed: '' @
           (case err of Error m \<Rightarrow> m | NonError \<Rightarrow> ''Unknown compression error'')))
        \<in> set (effects (onDrop p encoder s acceptedFiles)) \<and>
      f \<in> set (uploads (effects (onDrop p encoder s acceptedFiles))))
   \<and> (imageSrc s \<noteq> None \<and> croppedAreaPixels s \<noteq> None \<and>
       encoder \<lparr> fname = ''cropped-image.jpg'', ftype = ''image/jpeg'', fsize = b \<rparr> = Inl err \<longrightarrow>
      effects (handleCropAndUpload p encoder s (Inr (Some b)))
        = effects s @
          [ConsoleErrorThrown (Error (''Image compression failed: '' @
             (case err of Error m \<Rightarrow> m | NonError \<Rightarrow> ''Unknown compression error''))),
           ToastError ''Gagal mengupload gambar''])
   \<and> (compressionIdRef h = sid \<longrightarrow>
      runCompression_resume opts h g sid (Inl err)
        = h\<lparr> state := (state h)\<lparr> isCompressing := False,
                 error := Some (''Image compression failed: '' @
                   (case err of Error m \<Rightarrow> m | NonError \<Rightarrow> ''Unknown compression error'')) \<rparr> \<rparr>)"
proof (intro conjI impI)
  assume a: "multiple p \<and> f \<in> set acceptedFiles \<and> encoder f = Inl err"
  then show c: "compress_or_original p encoder f =
        (f, ConsoleError (''Gagal compress '' @ fname f @ '', menggunakan file asli'')
              (Error (''Image compression failed: '' @
                 (case err of Error m \<Rightarrow> m | NonError \<Rightarrow> ''Unknown compression error''))))"
    by (simp add: compress_or_original_def compressImage_def)
  from a have ne: "acceptedFiles \<noteq> []"
    by auto
  from a ne obtain rest where tr: "effects (onDrop p encoder s acceptedFiles)
             = effects s @ map (snd \<circ> compress_or_original p encoder) acceptedFiles @
               map Upload (map (fst \<circ> compress_or_original p encoder) acceptedFiles) @ rest"
    using onDrop_multiple_effects by blast
  from a have "snd (compress_or_original p encoder f)
                 \<in> (snd \<circ> compress_or_original p encoder) ` set acceptedFiles"
    by (metis comp_apply imageI)
  with c tr
  show "ConsoleError (''Gagal compress '' @ fname f @ '', menggunakan file asli'')
        (Error (''Image compression failed: '' @
           (case err of Error m \<Rightarrow> m | NonError \<Rightarrow> ''Unknown compression error'')))
        \<in> set (effects (onDrop p encoder s acceptedFiles))"
    by (simp del: map_map)
  from a have "fst (compress_or_original p encoder f)
                 \<in> (fst \<circ> compress_or_original p encoder) ` set acceptedFiles"
    by (metis comp_apply imageI)
  with a c show "f \<in> set (uploads (effects (onDrop p encoder s acceptedFiles)))"
    by (simp add: onDrop_multiple_uploads)
next
  assume "imageSrc s \<noteq> None \<and> croppedAreaPixels s \<noteq> None \<and>
       encoder \<lparr> fname = ''cropped-image.jpg'', ftype = ''image/jpeg'', fsize = b \<rparr> = Inl err"
  then show "effects (handleCropAndUpload p encoder s (Inr (Some b)))
        = effects s @
          [ConsoleErrorThrown (Error (''Image compression failed: '' @
             (case err of Error m \<Rightarrow> m | NonError \<Rightarrow> ''Unknown compression error''))),
           ToastError ''Gagal mengupload gambar'']"
    by (simp add: handleCropAndUpload_def crop_compress_upload_def compressImage_def Let_def)
next
  assume "compressionIdRef h = sid"
  then show "runCompression_resume opts h g sid (Inl err)
        = h\<lparr> state := (state h)\<lparr> isCompressing := False,
                 error := Some (''Image compression failed: '' @
                   (case err of Error m \<Rightarrow> m | NonError \<Rightarrow> ''Unknown compression error'')) \<rparr> \<rparr>"
    by (simp add: runCompression_resume_def compressImage_def)
qed

theorem compression_failure_handling_witness:
  "ConsoleError ''Gagal compress a.png, menggunakan file asli''
       (Error ''Image compression failed: a.png'')
     \<in> set (effects (onDrop multiple_props failing_encoder FileUpload_mount [png_a]))
   \<and> png_a \<in> set (uploads (effects (onDrop multiple_props failing_encoder FileUpload_mount [png_a])))
   \<and> effects (handleCropAndUpload single_props failing_encoder
                 (onCropComplete (onDrop single_props failing_encoder FileUpload_mount [png_a])
                    (0, 0, 100, 100))
                 (Inr (Some 4096)))
      = effects (onCropComplete (onDrop single_props failing_encoder FileUpload_mount [png_a])
                    (0, 0, 100, 100))
        @ [ConsoleErrorThrown (Error ''Image compression failed: cropped-image.jpg''),
           ToastError ''Gagal mengupload gambar'']
   \<and> runCompression_resume default_options (mount\<lparr> compressionIdRef := 1 \<rparr>) png_a 1
             (Inl (Error ''decode failed''))
      = (mount\<lparr> compressionIdRef := 1 \<rparr>)
          \<lparr> state := (state (mount\<lparr> compressionIdRef := 1 \<rparr>))
                       \<lparr> isCompressing := False,
                         error := Some ''Image compression failed: decode failed'' \<rparr> \<rparr>"
proof -
  have src: "imageSrc (onCropComplete (onDrop single_props failing_encoder FileUpload_mount [png_a])
                (0, 0, 100, 100)) \<noteq> None"
    by (simp add: onCropComplete_def onDrop_def)
  have area: "croppedAreaPixels (onCropComplete
                (onDrop single_props failing_encoder FileUpload_mount [png_a])
                (0, 0, 100, 100)) \<noteq> None"
    by (simp add: onCropComplete_def)
  show ?thesis
    using src area
      compression_failure_handling [where p = multiple_props and f = png_a
        and acceptedFiles = "[png_a]" and encoder = failing_encoder and err = "Error ''a.png''"
        and s = FileUpload_mount and b = 0 and h = mount and sid = 1]
      compression_failure_handling [where p = single_props and f = png_a
        and acceptedFiles = "[]" and encoder = failing_encoder
        and err = "Error ''cropped-image.jpg''"
        and s = "onCropComplete (onDrop single_props failing_encoder FileUpload_mount [png_a])
                   (0, 0, 100, 100)"
        and b = 4096 and h = mount and sid = 1]
      compression_failure_handling [where p = single_props and f = png_a
        and acceptedFiles = "[]" and encoder = failing_encoder and err = "Error ''decode failed''"
        and s = FileUpload_mount and b = 0 and h = "mount\<lparr> compressionIdRef := 1 \<rparr>" and sid = 1
        and opts = default_options and g = png_a]
    by simp
qed

section \<open>Preview handles\<close>

lemma onDrop_never_revokes: "released (effects (onDrop p encoder s fs)) = released (effects s)"
proof (cases "multiple p \<and> fs \<noteq> []")
  case True
  then obtain rest where
    "effects (onDrop p encoder s fs)
       = effects s @ map (snd \<circ> compress_or_original p encoder) fs @
         map Upload (map (fst \<circ> compress_or_original p encoder) fs) @ rest"
    and "released rest = 0"
    using onDrop_multiple_effects by blast
  then show ?thesis
    by (simp add: released_append released_logs released_map_Upload del: map_map)
next
  case False
  then show ?thesis
    by (auto simp: onDrop_def released_def split: list.splits)
qed

lemma handleClose_never_revokes: "released (effects (handleClose s)) = released (effects s)"
  by (simp add: handleClose_def)

lemma handleCropAndUpload_never_revokes:
  "released (effects (handleCropAndUpload p encoder s cropped)) = released (effects s)"
  by (auto simp: handleCropAndUpload_def crop_compress_upload_def handleClose_def released_def
        Let_def split: sum.splits option.splits prod.splits)

lemma handleRemove_never_revokes: "released (effects (handleRemove p s u)) = released (effects s)"
  by (auto simp: handleRemove_def released_def split: jsvalue.splits bool.splits)

lemma onDrop_single_allocates:
  "\<not> multiple p \<Longrightarrow> allocated (effects (onDrop p encoder s (f # fs))) = Suc (allocated (effects s))"
  by (simp add: onDrop_def allocated_def)

text \<open>
  C5. The component in single mode allocates an object URL at every selection and never
  releases one: no handler of the component makes a \<open>URL.revokeObjectURL\<close> call (the
  four lemmas above), and the component registers no cleanup for teardown. After two
  selections, each dismissed by closing the crop dialog, two handles are allocated and
  none is released.
\<close>

theorem FileUpload_preview_leak:
  "allocated (effects (handleClose (onDrop single_props Inr
      (handleClose (onDrop single_props Inr FileUpload_mount [png_a])) [png_b]))) = 2
   \<and> released (effects (handleClose (onDrop single_props Inr
      (handleClose (onDrop single_props Inr FileUpload_mount [png_a])) [png_b]))) = 0"
  by (simp add: onDrop_def handleClose_def FileUpload_mount_def allocated_def released_def)

text \<open>
  The hook, in contrast, releases the held handle before every selection, on reset and on
  teardown. Over selections that do not overlap, followed by teardown, its releases equal
  its allocations, and between selections it holds at most one live handle.
\<close>

lemma cleanupPreview_balanced: "balanced h \<Longrightarrow> balanced (cleanupPreview h)"
  by (auto simp: balanced_def cleanupPreview_def allocated_def released_def split: option.splits)

lemma cleanupPreview_ref: "previewUrlRef (cleanupPreview h) = None"
  by (auto simp: cleanupPreview_def split: option.splits)

lemma cleanupPreview_released:
  "balanced h \<Longrightarrow>
   allocated (hook_effects (cleanupPreview h)) = released (hook_effects (cleanupPreview h))"
  using cleanupPreview_balanced [of h] by (simp add: balanced_def cleanupPreview_ref)

lemma select_balanced: "balanced h \<Longrightarrow> balanced (select opts h f probe)"
  by (auto simp: select_def handleFile_start_def handleFile_resume_def runCompression_start_def
        balanced_def cleanupPreview_def allocated_def released_def Let_def
        split: option.splits)

lemma reset_balanced: "balanced h \<Longrightarrow> balanced (reset h)"
  by (auto simp: reset_def balanced_def cleanupPreview_def allocated_def released_def Let_def
        split: option.splits)

lemma selections_balanced:
  "balanced h \<Longrightarrow> balanced (foldl (\<lambda>h (f, probe). select opts h f probe) h sels)"
  by (induction sels arbitrary: h) (auto simp: select_balanced)

lemma hook_sequential_balance:
  "allocated (hook_effects (cleanupPreview (foldl (\<lambda>h (f, probe). select opts h f probe) mount sels)))
     = released (hook_effects (cleanupPreview (foldl (\<lambda>h (f, probe). select opts h f probe) mount sels)))"
proof -
  have "balanced mount"
    by (simp add: balanced_def mount_def allocated_def released_def)
  then have "balanced (foldl (\<lambda>h (f, probe). select opts h f probe) mount sels)"
    by (rule selections_balanced)
  then show ?thesis
    by (rule cleanupPreview_released)
qed

text \<open>
  The continuation of \<open>handleFile\<close> after the dimension check does not look at the
  session counter. When a second selection starts while the first waits for its probe,
  both allocate a handle and the first one is never released, teardown included.
\<close>

lemma hook_overlapping_selections_leak:
  "allocated (hook_effects (run probing_options mount
      [HandleFile png_a, HandleFile png_b,
       DimensionsSettled png_a 1 (Inr vga), DimensionsSettled png_b 2 (Inr vga),
       Unmount])) = 2
   \<and> released (hook_effects (run probing_options mount
      [HandleFile png_a, HandleFile png_b,
       DimensionsSettled png_a 1 (Inr vga), DimensionsSettled png_b 2 (Inr vga),
       Unmount])) = 1"
  by (simp add: run_def handleFile_start_def handleFile_resume_def runCompression_start_def
        cleanupPreview_def validateFile_def merged_def validateDimensions_def
        validateDimensions_start_def
        validateDimensions_resume_def truthy_def isImageFile_def DEFAULT_allowedTypes_def
        DEFAULT_maxSizeMB_def mount_def allocated_def released_def Let_def)

section \<open>Validation\<close>

text \<open>
  C7, as the claim states it, fails for a configured limit of zero: zero is falsy, so
  the guard \<open>maxSizeMB && ...\<close> switches the size check off. A 100 KB image of an
  allowed type exceeds a limit of 0 MB, and \<open>validateFile\<close> returns \<open>null\<close>.
\<close>

theorem oversize_message_counterexample:
  "isImageFile png_a \<and> ftype png_a \<in> set DEFAULT_allowedTypes
   \<and> v_maxSizeMB limit_0MB = Present (Whole 0)
   \<and> exceeds_MB (fsize png_a) (Whole 0)
   \<and> validateFile png_a limit_0MB = None"
  by (simp add: validateFile_def merged_def Let_def isImageFile_def DEFAULT_allowedTypes_def)

text \<open>
  C7, amended. For every file that passes the type checks and whose byte size exceeds
  the configured \<open>maxSizeMB\<close> limit \<open>m\<close>, the limit being non-zero, \<open>validateFile\<close>
  returns the message \<open>File too large. Max: <m>MB, Got: <formatFileSize(size)>\<close>, which
  cites the limit and the actual size. In particular a 6 MB file under the limit 5 gets
  \<open>File too large. Max: 5MB, Got: 6 MB\<close>. The limit is any number: whole, fractional,
  negative or infinite.
\<close>

theorem validateFile_oversize:
  "(isImageFile f \<and>
    (\<forall>ts. merged DEFAULT_allowedTypes (allowedTypes opts) = Some ts \<longrightarrow> ftype f \<in> set ts) \<and>
    v_maxSizeMB opts = Present m \<and> truthy_number m \<and> exceeds_MB (fsize f) m \<longrightarrow>
      validateFile f opts =
        Some (''File too large. Max: '' @ numberToString m @ ''MB, Got: '' @
              formatFileSize (fsize f)))
   \<and> validateFile png_6MB limit_5MB = Some ''File too large. Max: 5MB, Got: 6 MB''"
proof (intro conjI impI)
  assume "isImageFile f \<and>
    (\<forall>ts. merged DEFAULT_allowedTypes (allowedTypes opts) = Some ts \<longrightarrow> ftype f \<in> set ts) \<and>
    v_maxSizeMB opts = Present m \<and> truthy_number m \<and> exceeds_MB (fsize f) m"
  then show "validateFile f opts =
        Some (''File too large. Max: '' @ numberToString m @ ''MB, Got: '' @
              formatFileSize (fsize f))"
    by (auto simp: validateFile_def Let_def merged_def split: option.splits optkey.splits)
next
  show "validateFile png_6MB limit_5MB = Some ''File too large. Max: 5MB, Got: 6 MB''"
    by (simp add: validateFile_def merged_def Let_def isImageFile_def DEFAULT_allowedTypes_def
          formatFileSize_6MB show_nat_5)
qed

theorem validateFile_oversize_witness:
  "isImageFile png_6MB \<and> exceeds_MB (fsize png_6MB) (Whole 5)
   \<and> validateFile png_6MB limit_5MB = Some ''File too large. Max: 5MB, Got: 6 MB''
   \<and> exceeds_MB (fsize png_768KB) (Other (1 / 2) ''0.5'')
   \<and> \<not> exceeds_MB (fsize png_768KB) (Whole 1)
   \<and> validateFile png_768KB limit_half_MB = Some ''File too large. Max: 0.5MB, Got: 768 KB''"
  using validateFile_oversize [of png_6MB limit_5MB "Whole 5"]
    validateFile_oversize [of png_768KB limit_half_MB "Other (1 / 2) ''0.5''"]
  by (simp add: isImageFile_def DEFAULT_allowedTypes_def merged_def formatFileSize_6MB
        formatFileSize_768KB show_nat_5)

text \<open>
  A key that is present with the value \<open>undefined\<close> replaces the default and switches
  its check off: a 20 MB bitmap passes, and the size default of 10 does not apply.
\<close>

lemma undefined_keys_switch_checks_off:
  "validateFile bmp_20MB undefined_checks = None
   \<and> validateFile bmp_20MB no_validation
       = Some ''Allowed types: image/jpeg, image/png, image/webp, image/gif''"
  by (simp add: validateFile_def merged_def Let_def isImageFile_def DEFAULT_allowedTypes_def)

text \<open>
  C8. For a fixed rule set, the verdict depends on the file through its MIME type, its
  byte size and the outcome of the dimension probe only: two files that agree on the
  three get the same verdict, whatever else differs (their names, the error a failed
  probe carries).
\<close>

theorem validation_deterministic:
  assumes "ftype f1 = ftype f2" and "fsize f1 = fsize f2"
    and "dimensions_of p1 = dimensions_of p2"
  shows "validation_verdict opts f1 p1 = validation_verdict opts f2 p2"
proof -
  have "validateFile f1 opts = validateFile f2 opts"
    using assms(1,2)
    by (auto simp: validateFile_def isImageFile_def Let_def split: option.splits)
  moreover have "validateDimensions opts p1 = validateDimensions opts p2"
    using assms(3)
    by (auto simp: validateDimensions_def validateDimensions_resume_def dimensions_of_def
          split: sum.splits dim_step.splits)
  ultimately show ?thesis by (simp add: validation_verdict_def split: option.splits)
qed

theorem validation_deterministic_witness:
  "validation_verdict minWidth_100 png_a (Inr square_64)
     = validation_verdict minWidth_100 png_b (Inr square_64)
   \<and> validation_verdict minWidth_100 png_a (Inl (Error ''decode''))
     = validation_verdict minWidth_100 png_b (Inl NonError)"
  using validation_deterministic [of png_a png_b "Inr square_64" "Inr square_64" minWidth_100]
    validation_deterministic [of png_a png_b "Inl (Error ''decode'')" "Inl NonError" minWidth_100]
  by (simp add: dimensions_of_def)

text \<open>
  C9. The checks of \<open>validateFile\<close> are ordered. A file whose MIME type does not start
  with \<open>image/\<close> gets \<open>File must be an image\<close>, whatever its size and the allowed types.
  An image file whose type is not in the allowed list in force (the configured list, or
  the default list when the key is left out) gets the allowed-types message, whatever its
  size.
\<close>

theorem validateFile_precedence:
  "(\<not> isImageFile f \<longrightarrow> validateFile f opts = Some ''File must be an image'')
   \<and> (isImageFile f \<and>
       merged DEFAULT_allowedTypes (allowedTypes opts) = Some ts \<and> ftype f \<notin> set ts \<longrightarrow>
       validateFile f opts = Some (''Allowed types: '' @ join '', '' ts))"
  by (simp add: validateFile_def Let_def)

theorem validateFile_precedence_witness:
  "fsize pdf_20MB > 10 * 1024 * 1024
   \<and> validateFile pdf_20MB no_validation = Some ''File must be an image''
   \<and> fsize bmp_20MB > 10 * 1024 * 1024
   \<and> validateFile bmp_20MB no_validation
       = Some ''Allowed types: image/jpeg, image/png, image/webp, image/gif''"
  using validateFile_precedence [of pdf_20MB no_validation DEFAULT_allowedTypes]
    validateFile_precedence [of bmp_20MB no_validation DEFAULT_allowedTypes]
  by (simp add: isImageFile_def DEFAULT_allowedTypes_def merged_def)

text \<open>
  The probe fails exactly when the image-element load fails and the bitmap decode is
  missing or fails too.
\<close>

lemma getImageDimensions_fails:
  "isl (getImageDimensions hasBitmap bitmap img) \<longleftrightarrow> img = None \<and> (hasBitmap \<longrightarrow> bitmap = None)"
  by (auto simp: getImageDimensions_def Let_def split: option.splits)

text \<open>
  C10. With no dimension bound configured, \<open>validateDimensions\<close> returns \<open>null\<close> in its
  first synchronous part, without suspending on the probe, whatever the probe would
  yield. A failed probe leads to a rejection only through the suspension, and then some
  bound is configured.
\<close>

theorem validateDimensions_no_bounds:
  "(minWidth opts = None \<and> minHeight opts = None \<and> maxWidth opts = None \<and> maxHeight opts = None \<longrightarrow>
      validateDimensions_start opts = Return None \<and> validateDimensions opts probe = None)
   \<and> (validateDimensions opts (Inl e) \<noteq> None \<longrightarrow>
      validateDimensions_start opts = AwaitProbe \<and>
      (minWidth opts \<noteq> None \<or> minHeight opts \<noteq> None \<or> maxWidth opts \<noteq> None \<or> maxHeight opts \<noteq> None))"
  by (auto simp: validateDimensions_def validateDimensions_start_def truthy_def)

theorem validateDimensions_no_bounds_witness:
  "validateDimensions_start no_validation = Return None
   \<and> validateDimensions no_validation (Inl (Error ''decode'')) = None
   \<and> validateDimensions minWidth_100 (Inl (Error ''decode'')) \<noteq> None
   \<and> validateDimensions_start minWidth_100 = AwaitProbe"
proof -
  have rejected: "validateDimensions minWidth_100 (Inl (Error ''decode'')) \<noteq> None"
    by (simp add: validateDimensions_def validateDimensions_start_def
          validateDimensions_resume_def truthy_def)
  show ?thesis
    using rejected
      validateDimensions_no_bounds [of no_validation "Inl (Error ''decode'')" "Error ''decode''"]
      validateDimensions_no_bounds [of minWidth_100 "Inl (Error ''decode'')" "Error ''decode''"]
    by simp
qed

end
